theory Spec2Isabelle
  imports Complex_Main
begin

section \<open>PDF generator service: configuration\<close>

text \<open>
  The module-level settings of \<^verbatim>\<open>pdf_service.py\<close>, read once from the environment when
  the module is imported. They are fixed for the lifetime of the process, so the model
  passes them around as one record. \<^verbatim>\<open>PDF_DIR\<close> is a literal in the source.
\<close>

record config =
  PDF_RETENTION_SECONDS :: int
  PDF_CLEANUP_INTERVAL :: int
  PDF_FORMAT :: string
  PDF_PRINT_BACKGROUND :: bool
  PDF_SCALE :: real
  PDF_MARGIN_TOP :: string
  PDF_MARGIN_BOTTOM :: string
  PDF_MARGIN_LEFT :: string
  PDF_MARGIN_RIGHT :: string
  PDF_COOKIE_DOMAIN :: "string option"

definition PDF_DIR :: string where
  "PDF_DIR = ''generated_pdfs''"

text \<open>
  \<^verbatim>\<open>os.path.join(a, b)\<close> with two arguments, as \<^verbatim>\<open>posixpath\<close> computes it: an absolute
  second component replaces the first; otherwise the components are joined by one
  separator, which is left out when the first is empty or already ends in one.
\<close>

definition os_path_join :: "string \<Rightarrow> string \<Rightarrow> string" where
  "os_path_join a b =
     (if take 1 b = ''/'' then b
      else if a = [] \<or> last a = CHR ''/'' then a @ b
      else a @ ''/'' @ b)"

text \<open>Python's \<^verbatim>\<open>str\<close> of a non-negative integer, used by the f-string of the log line.\<close>

fun str_nat :: "nat \<Rightarrow> string" where
  "str_nat n =
     (if n < 10 then [''0123456789'' ! n]
      else str_nat (n div 10) @ [''0123456789'' ! (n mod 10)])"

declare str_nat.simps [simp del]

section \<open>The file system seen by the retention sweeper\<close>

text \<open>
  The sweeper talks to the operating system through \<^verbatim>\<open>os.listdir\<close>,
  \<^verbatim>\<open>os.path.isfile\<close>, \<^verbatim>\<open>os.path.getmtime\<close> and \<^verbatim>\<open>os.remove\<close>. Each of them can raise.
  A node of the file system therefore records what the three per-file calls answer for
  it: a result, or the exception raised. (\<^verbatim>\<open>os.path.isfile\<close> of CPython answers
  \<^verbatim>\<open>False\<close> where the underlying \<^verbatim>\<open>stat\<close> fails; the model lets it raise as well, which
  covers strictly more behaviours than the real call has.)

  Time stamps are Python floats in the source and real numbers here. The only arithmetic
  on them is one subtraction of two time stamps and one comparison with an integer.
\<close>

datatype os_error = FileNotFoundError | PermissionError | IsADirectoryError | OSError

record node =
  isfile_result :: "os_error + bool"
  getmtime_result :: "os_error + real"
  remove_result :: "os_error option"

type_synonym filesystem = "(string \<times> node) list"

record world =
  clock :: real
  listdir_error :: "os_error option"
  fs :: filesystem
  stdout :: "string list"

definition exists_path :: "filesystem \<Rightarrow> string \<Rightarrow> bool" where
  "exists_path files p = (map_of files p \<noteq> None)"

text \<open>
  The entries of directory \<open>d\<close>: the last components of the paths \<open>d/name\<close> that exist,
  \<open>name\<close> being non-empty and free of separators.
\<close>

definition entry_name :: "string \<Rightarrow> string \<Rightarrow> string option" where
  "entry_name d p =
     (let k = length d + 1; name = drop k p
      in if take k p = d @ ''/'' \<and> name \<noteq> [] \<and> CHR ''/'' \<notin> set name
         then Some name else None)"

definition os_listdir :: "world \<Rightarrow> string \<Rightarrow> os_error + string list" where
  "os_listdir w d =
     (case listdir_error w of
        Some e \<Rightarrow> Inl e
      | None \<Rightarrow> Inr (remdups (List.map_filter (entry_name d) (map fst (fs w)))))"

definition os_path_isfile :: "filesystem \<Rightarrow> string \<Rightarrow> os_error + bool" where
  "os_path_isfile files p =
     (case map_of files p of None \<Rightarrow> Inr False | Some n \<Rightarrow> isfile_result n)"

definition os_path_getmtime :: "filesystem \<Rightarrow> string \<Rightarrow> os_error + real" where
  "os_path_getmtime files p =
     (case map_of files p of None \<Rightarrow> Inl FileNotFoundError | Some n \<Rightarrow> getmtime_result n)"

definition os_remove :: "filesystem \<Rightarrow> string \<Rightarrow> os_error + filesystem" where
  "os_remove files p =
     (case map_of files p of
        None \<Rightarrow> Inl FileNotFoundError
      | Some n \<Rightarrow>
          (case remove_result n of
             Some e \<Rightarrow> Inl e
           | None \<Rightarrow> Inr (filter (\<lambda>kv. fst kv \<noteq> p) files)))"

section \<open>The retention sweeper\<close>

text \<open>
  The body of the \<^verbatim>\<open>try\<close> block for one directory entry. The state is the file system
  together with the tally \<^verbatim>\<open>removed\<close>. An exception leaves the block with \<open>Inl\<close>; nothing
  was changed by then, since \<^verbatim>\<open>os.remove\<close> is the only call with an effect and the
  tally is incremented after it.
\<close>

definition sweep_try :: "config \<Rightarrow> real \<Rightarrow> string \<Rightarrow> filesystem \<times> nat \<Rightarrow> os_error + filesystem \<times> nat" where
  "sweep_try cfg now file_path st =
     (case os_path_isfile (fst st) file_path of
        Inl e \<Rightarrow> Inl e
      | Inr False \<Rightarrow> Inr st
      | Inr True \<Rightarrow>
          (case os_path_getmtime (fst st) file_path of
             Inl e \<Rightarrow> Inl e
           | Inr m \<Rightarrow>
               (let age = now - m
                in if age > of_int (PDF_RETENTION_SECONDS cfg)
                   then (case os_remove (fst st) file_path of
                           Inl e \<Rightarrow> Inl e
                         | Inr files' \<Rightarrow> Inr (files', snd st + 1))
                   else Inr st)))"

text \<open>One pass of the \<^verbatim>\<open>for\<close> body: \<^verbatim>\<open>except Exception: pass\<close> keeps the state.\<close>

definition sweep_file :: "config \<Rightarrow> real \<Rightarrow> string \<Rightarrow> filesystem \<times> nat \<Rightarrow> filesystem \<times> nat" where
  "sweep_file cfg now filename st =
     (let file_path = os_path_join PDF_DIR filename
      in case sweep_try cfg now file_path st of
           Inl e \<Rightarrow> st
         | Inr st' \<Rightarrow> st')"

text \<open>The \<^verbatim>\<open>for filename in os.listdir(PDF_DIR)\<close> loop.\<close>

fun sweep :: "config \<Rightarrow> real \<Rightarrow> string list \<Rightarrow> filesystem \<times> nat \<Rightarrow> filesystem \<times> nat" where
  "sweep cfg now [] st = st"
| "sweep cfg now (filename # rest) st = sweep cfg now rest (sweep_file cfg now filename st)"

definition cleanup_message :: "nat \<Rightarrow> string" where
  "cleanup_message removed = ''[CLEANUP] Removed '' @ str_nat removed @ '' expired PDF(s)''"

text \<open>
  One cycle: the body of \<^verbatim>\<open>while True\<close> up to the sleep. \<^verbatim>\<open>os.listdir\<close> is called
  outside the \<^verbatim>\<open>try\<close> block, so its exception leaves the cycle (and the loop).
\<close>

definition sweep_cycle :: "config \<Rightarrow> world \<Rightarrow> os_error + world" where
  "sweep_cycle cfg w =
     (let now = clock w
      in case os_listdir w PDF_DIR of
           Inl e \<Rightarrow> Inl e
         | Inr names \<Rightarrow>
             (let st = sweep cfg now names (fs w, 0);
                  removed = snd st
              in Inr (w\<lparr>fs := fst st,
                        stdout := (if removed > 0 then stdout w @ [cleanup_message removed]
                                   else stdout w)\<rparr>)))"





text \<open>
  When a visit deletes its file: the entry is reported as a regular file, its age is
  over the retention threshold, and \<^verbatim>\<open>os.remove\<close> goes through.
\<close>

definition expired :: "config \<Rightarrow> real \<Rightarrow> node \<Rightarrow> bool" where
  "expired cfg now n =
     (isfile_result n = Inr True \<and>
      (case getmtime_result n of
         Inl e \<Rightarrow> False
       | Inr m \<Rightarrow> now - m > of_int (PDF_RETENTION_SECONDS cfg)) \<and>
      remove_result n = None)"

section \<open>The render handler\<close>

text \<open>
  \<^verbatim>\<open>await request.json()\<close> yields any JSON value, not only an object, and raises
  \<^verbatim>\<open>JSONDecodeError\<close> for a body that is not JSON. Numbers keep their literal text: the
  handler never computes with them.
\<close>

datatype json =
  JNull
  | JBool bool
  | JNum string
  | JStr string
  | JList "json list"
  | JObject "(string \<times> json) list"

datatype py_error = JSONDecodeError | TypeError | KeyError

text \<open>Python's substring test \<^verbatim>\<open>k in s\<close> on two strings.\<close>

fun str_contains :: "string \<Rightarrow> string \<Rightarrow> bool" where
  "str_contains k [] = (k = [])"
| "str_contains k (c # s) = (take (length k) (c # s) = k \<or> str_contains k s)"

text \<open>
  \<^verbatim>\<open>k in data\<close> for a string \<open>k\<close>: key membership on a dict, element membership on a
  list, substring on a string, and \<^verbatim>\<open>TypeError\<close> on a number, a boolean or \<^verbatim>\<open>None\<close>.
\<close>

fun py_contains :: "string \<Rightarrow> json \<Rightarrow> py_error + bool" where
  "py_contains k (JObject kvs) = Inr (k \<in> fst ` set kvs)"
| "py_contains k (JList xs) = Inr (JStr k \<in> set xs)"
| "py_contains k (JStr s) = Inr (str_contains k s)"
| "py_contains k JNull = Inl TypeError"
| "py_contains k (JBool b) = Inl TypeError"
| "py_contains k (JNum n) = Inl TypeError"

text \<open>\<^verbatim>\<open>data[k]\<close> for a string \<open>k\<close>: only a dict can be indexed by a string.\<close>

fun py_getitem :: "json \<Rightarrow> string \<Rightarrow> py_error + json" where
  "py_getitem (JObject kvs) k = (case map_of kvs k of None \<Rightarrow> Inl KeyError | Some v \<Rightarrow> Inr v)"
| "py_getitem (JList xs) k = Inl TypeError"
| "py_getitem (JStr s) k = Inl TypeError"
| "py_getitem JNull k = Inl TypeError"
| "py_getitem (JBool b) k = Inl TypeError"
| "py_getitem (JNum n) k = Inl TypeError"

text \<open>
  \<^verbatim>\<open>a or b\<close> where \<open>a\<close> is a string or \<^verbatim>\<open>None\<close> and \<open>b\<close> is a string: \<^verbatim>\<open>None\<close> and the
  empty string are falsy.
\<close>

definition py_or :: "string option \<Rightarrow> string \<Rightarrow> string" where
  "py_or a b = (case a of None \<Rightarrow> b | Some v \<Rightarrow> if v \<noteq> [] then v else b)"

record cookie =
  cookie_name :: string
  cookie_value :: string
  cookie_domain :: string
  cookie_path :: string

record pdf_options =
  pdf_path :: string
  pdf_format :: string
  pdf_print_background :: bool
  pdf_scale :: real
  pdf_margin_top :: string
  pdf_margin_bottom :: string
  pdf_margin_left :: string
  pdf_margin_right :: string

text \<open>
  The browser engine is an external collaborator. The model records the calls the
  handler makes to it, in order, with their arguments; \<^verbatim>\<open>page.pdf\<close> is the call that
  writes the file. What the engine does inside a call, and an exception of the engine
  itself (which the handler does not catch), are outside this development.
\<close>

datatype browser_call =
  Launch
  | NewContext
  | AddCookies "cookie list"
  | NewPage
  | SetContent json string
  | Goto json string
  | EmulateMedia string
  | Pdf pdf_options
  | Close

record effects =
  calls :: "browser_call list"
  written :: "string list"

text \<open>
  The inbound request. \<open>json_body\<close> is what \<^verbatim>\<open>await request.json()\<close> yields: the parsed
  value, or \<open>None\<close> for a body that is not JSON, where the call raises.
\<close>

record request =
  json_body :: "json option"
  cookies :: "(string \<times> string) list"
  url_scheme :: string
  url_hostname :: "string option"
  host_header :: "string option"

record response =
  status_code :: nat
  content :: "(string \<times> string) list"

definition invoke :: "browser_call \<Rightarrow> effects \<Rightarrow> effects" where
  "invoke c eff = eff\<lparr>calls := calls eff @ [c]\<rparr>"

definition render_pdf :: "config \<Rightarrow> string \<Rightarrow> effects \<Rightarrow> effects" where
  "render_pdf cfg output_path eff =
     (let eff1 = invoke (EmulateMedia ''print'') eff;
          eff2 = invoke (Pdf \<lparr>pdf_path = output_path, pdf_format = PDF_FORMAT cfg,
                              pdf_print_background = PDF_PRINT_BACKGROUND cfg,
                              pdf_scale = PDF_SCALE cfg,
                              pdf_margin_top = PDF_MARGIN_TOP cfg,
                              pdf_margin_bottom = PDF_MARGIN_BOTTOM cfg,
                              pdf_margin_left = PDF_MARGIN_LEFT cfg,
                              pdf_margin_right = PDF_MARGIN_RIGHT cfg\<rparr>) eff1
      in eff2\<lparr>written := written eff2 @ [output_path]\<rparr>)"

text \<open>The tail of the handler, from \<^verbatim>\<open>render_pdf\<close> to the returned dict (status 200).\<close>

definition finish_pdf ::
  "config \<Rightarrow> (string \<Rightarrow> string option) \<Rightarrow> request \<Rightarrow> string \<Rightarrow> string \<Rightarrow> effects \<Rightarrow>
   (py_error + response) \<times> effects" where
  "finish_pdf cfg environ request pdf_id output_path eff =
     (let eff1 = invoke Close (render_pdf cfg output_path eff);
          base_url =
            (case environ ''PDF_BASE_URL'' of
               Some b \<Rightarrow> if b \<noteq> [] then Some b else None
             | None \<Rightarrow> None);
          base_url =
            (case base_url of
               Some b \<Rightarrow> b
             | None \<Rightarrow>
                 (let scheme = url_scheme request;
                      host = (case host_header request of
                                Some h \<Rightarrow> h
                              | None \<Rightarrow> ''localhost:'' @
                                  (case environ ''PORT'' of Some p \<Rightarrow> p | None \<Rightarrow> ''8080''))
                  in scheme @ ''://'' @ host));
          pdf_url = base_url @ ''/pdfs/'' @ pdf_id @ ''.pdf''
      in (Inr \<lparr>status_code = 200, content = [(''pdf_url'', pdf_url)]\<rparr>, eff1))"

text \<open>
  The handler. \<open>pdf_id\<close> is the string of the fresh \<^verbatim>\<open>uuid.uuid4()\<close>; \<open>environ\<close> is
  \<^verbatim>\<open>os.environ\<close>, which the handler reads at request time. The result is the response,
  or the exception that leaves the handler (a server error), together with the browser
  calls made and the files written. \<^verbatim>\<open>await request.json()\<close> is the first statement: when
  it raises, no browser has been launched.
\<close>

definition generate_pdf ::
  "config \<Rightarrow> (string \<Rightarrow> string option) \<Rightarrow> request \<Rightarrow> string \<Rightarrow> (py_error + response) \<times> effects" where
  "generate_pdf cfg environ request pdf_id =
     (case json_body request of
        None \<Rightarrow> (Inl JSONDecodeError, \<lparr>calls = [], written = []\<rparr>)
      | Some data \<Rightarrow>
     (let output_path = os_path_join PDF_DIR (pdf_id @ ''.pdf'');
          laravel_token = map_of (cookies request) ''token'';
          browser = invoke Launch \<lparr>calls = [], written = []\<rparr>;
          context = invoke NewContext browser;
          context =
            (case laravel_token of
               None \<Rightarrow> context
             | Some token \<Rightarrow>
                 if token \<noteq> [] then
                   (let domain = py_or (PDF_COOKIE_DOMAIN cfg) (py_or (url_hostname request) ''localhost'')
                    in invoke (AddCookies [\<lparr>cookie_name = ''token'', cookie_value = token,
                                            cookie_domain = domain, cookie_path = ''/''\<rparr>]) context)
                 else context);
          page = invoke NewPage context
      in case py_contains ''html'' data of
           Inl e \<Rightarrow> (Inl e, page)
         | Inr True \<Rightarrow>
             (case py_getitem data ''html'' of
                Inl e \<Rightarrow> (Inl e, page)
              | Inr html \<Rightarrow>
                  finish_pdf cfg environ request pdf_id output_path
                    (invoke (SetContent html ''networkidle'') page))
         | Inr False \<Rightarrow>
             (case py_contains ''url'' data of
                Inl e \<Rightarrow> (Inl e, page)
              | Inr True \<Rightarrow>
                  (case py_getitem data ''url'' of
                     Inl e \<Rightarrow> (Inl e, page)
                   | Inr url \<Rightarrow>
                       finish_pdf cfg environ request pdf_id output_path
                         (invoke (Goto url ''networkidle'') page))
              | Inr False \<Rightarrow>
                  (Inr \<lparr>status_code = 400,
                        content = [(''error'', ''Provide either 'html' or 'url' in the JSON body.'')]\<rparr>,
                   invoke Close page))))"

text \<open>
  The first part of the handler, up to \<^verbatim>\<open>context.new_page()\<close>, as a function of its own;
  the proofs about \<open>generate_pdf\<close> go through it.
\<close>

definition open_page :: "config \<Rightarrow> request \<Rightarrow> effects" where
  "open_page cfg request =
     (let laravel_token = map_of (cookies request) ''token'';
          browser = invoke Launch \<lparr>calls = [], written = []\<rparr>;
          context = invoke NewContext browser;
          context =
            (case laravel_token of
               None \<Rightarrow> context
             | Some token \<Rightarrow>
                 if token \<noteq> [] then
                   (let domain = py_or (PDF_COOKIE_DOMAIN cfg) (py_or (url_hostname request) ''localhost'')
                    in invoke (AddCookies [\<lparr>cookie_name = ''token'', cookie_value = token,
                                            cookie_domain = domain, cookie_path = ''/''\<rparr>]) context)
                 else context)
      in invoke NewPage context)"

text \<open>Kinds of browser calls, for reading a trace.\<close>

fun is_render :: "browser_call \<Rightarrow> bool" where
  "is_render (SetContent v w) = True"
| "is_render (Goto v w) = True"
| "is_render (EmulateMedia m) = True"
| "is_render (Pdf opts) = True"
| "is_render c = False"

fun is_set_content :: "browser_call \<Rightarrow> bool" where
  "is_set_content (SetContent v w) = True"
| "is_set_content c = False"

fun is_goto :: "browser_call \<Rightarrow> bool" where
  "is_goto (Goto v w) = True"
| "is_goto c = False"

fun is_add_cookies :: "browser_call \<Rightarrow> bool" where
  "is_add_cookies (AddCookies cs) = True"
| "is_add_cookies c = False"

section \<open>Example inputs\<close>

definition default_config :: config where
  "default_config =
     \<lparr>PDF_RETENTION_SECONDS = 3600, PDF_CLEANUP_INTERVAL = 300, PDF_FORMAT = ''A4'',
      PDF_PRINT_BACKGROUND = False, PDF_SCALE = 6 / 10, PDF_MARGIN_TOP = ''1cm'',
      PDF_MARGIN_BOTTOM = ''1cm'', PDF_MARGIN_LEFT = ''1cm'', PDF_MARGIN_RIGHT = ''1cm'',
      PDF_COOKIE_DOMAIN = None\<rparr>"

definition plain_file :: "real \<Rightarrow> node" where
  "plain_file m = \<lparr>isfile_result = Inr True, getmtime_result = Inr m, remove_result = None\<rparr>"

definition locked_file :: "real \<Rightarrow> node" where
  "locked_file m =
     \<lparr>isfile_result = Inr True, getmtime_result = Inr m, remove_result = Some PermissionError\<rparr>"

definition vanished_file :: node where
  "vanished_file =
     \<lparr>isfile_result = Inr True, getmtime_result = Inl FileNotFoundError,
      remove_result = Some FileNotFoundError\<rparr>"

definition world_at :: "real \<Rightarrow> filesystem \<Rightarrow> world" where
  "world_at t files = \<lparr>clock = t, listdir_error = None, fs = files, stdout = []\<rparr>"

definition post_request :: "json \<Rightarrow> (string \<times> string) list \<Rightarrow> request" where
  "post_request data cs =
     \<lparr>json_body = Some data, cookies = cs, url_scheme = ''http'',
      url_hostname = Some ''pdf.example.com'', host_header = Some ''pdf.example.com:8080''\<rparr>"

definition two_files_world :: world where
  "two_files_world =
     world_at 10000 [(''generated_pdfs/a.pdf'', plain_file 0),
                     (''generated_pdfs/b.pdf'', plain_file 6400)]"

definition locked_world :: world where
  "locked_world = world_at 10000 [(''generated_pdfs/a.pdf'', locked_file 0)]"

definition racing_world :: world where
  "racing_world =
     world_at 10000 [(''generated_pdfs/a.pdf'', vanished_file),
                     (''generated_pdfs/b.pdf'', plain_file 0)]"

definition malformed_request :: "(string \<times> string) list \<Rightarrow> request" where
  "malformed_request cs =
     \<lparr>json_body = None, cookies = cs, url_scheme = ''http'',
      url_hostname = Some ''pdf.example.com'', host_header = Some ''pdf.example.com:8080''\<rparr>"

definition no_environ :: "string \<Rightarrow> string option" where
  "no_environ k = None"

definition blank_base_environ :: "string \<Rightarrow> string option" where
  "blank_base_environ k = (if k = ''PDF_BASE_URL'' then Some [] else None)"

section \<open>Facts about one sweep\<close>

lemma map_of_filter_other:
  "p \<noteq> q \<Longrightarrow> map_of (filter (\<lambda>kv. fst kv \<noteq> q) files) p = map_of files p"
  by (induction files) auto

lemma map_of_filter_same:
  "map_of (filter (\<lambda>kv. fst kv \<noteq> q) files) q = None"
  by (induction files) auto

lemma keys_filter:
  "fst ` set (filter (\<lambda>kv. fst kv \<noteq> q) files) = fst ` set files - {q}"
  by (induction files) auto

lemma sweep_try_absent:
  "map_of (fst st) p = None \<Longrightarrow> sweep_try cfg now p st = Inr st"
  by (simp add: sweep_try_def os_path_isfile_def)

lemma sweep_try_keep:
  "map_of (fst st) p = Some n \<Longrightarrow> \<not> expired cfg now n \<Longrightarrow>
   sweep_try cfg now p st = Inr st \<or> (\<exists>e. sweep_try cfg now p st = Inl e)"
  by (auto simp: sweep_try_def os_path_isfile_def os_path_getmtime_def os_remove_def expired_def
      split: sum.splits bool.splits option.splits)

lemma sweep_try_delete:
  "map_of (fst st) p = Some n \<Longrightarrow> expired cfg now n \<Longrightarrow>
   sweep_try cfg now p st = Inr (filter (\<lambda>kv. fst kv \<noteq> p) (fst st), snd st + 1)"
  by (auto simp: sweep_try_def os_path_isfile_def os_path_getmtime_def os_remove_def expired_def
      split: sum.splits bool.splits option.splits)

lemma sweep_try_cases:
  "sweep_try cfg now p st = Inr st \<or> (\<exists>e. sweep_try cfg now p st = Inl e) \<or>
   (map_of (fst st) p \<noteq> None \<and> sweep_try cfg now p st = Inr (filter (\<lambda>kv. fst kv \<noteq> p) (fst st), snd st + 1))"
  by (auto simp: sweep_try_def os_path_isfile_def os_path_getmtime_def os_remove_def Let_def
      split: sum.splits bool.splits option.splits)

lemma sweep_file_cases:
  "sweep_file cfg now filename st = st \<or>
   (map_of (fst st) (os_path_join PDF_DIR filename) \<noteq> None \<and>
    sweep_file cfg now filename st =
      (filter (\<lambda>kv. fst kv \<noteq> os_path_join PDF_DIR filename) (fst st), snd st + 1))"
  using sweep_try_cases [of cfg now "os_path_join PDF_DIR filename" st]
  by (auto simp: sweep_file_def)

lemma sweep_file_other:
  "os_path_join PDF_DIR filename \<noteq> p \<Longrightarrow>
   map_of (fst (sweep_file cfg now filename st)) p = map_of (fst st) p"
  using sweep_file_cases [of cfg now filename st]
  by (auto simp: map_of_filter_other)

lemma sweep_file_keep:
  assumes "map_of (fst st) p = Some n" and "\<not> expired cfg now n"
  shows "map_of (fst (sweep_file cfg now filename st)) p = Some n"
proof (cases "os_path_join PDF_DIR filename = p")
  case True
  with sweep_try_keep [OF assms] assms(1) show ?thesis
    by (auto simp: sweep_file_def)
next
  case False
  with sweep_file_other [OF False] assms(1) show ?thesis by simp
qed

lemma sweep_file_absent:
  "map_of (fst st) p = None \<Longrightarrow> map_of (fst (sweep_file cfg now filename st)) p = None"
  using sweep_file_cases [of cfg now filename st]
  by (cases "os_path_join PDF_DIR filename = p") (auto simp: map_of_filter_other)

lemma sweep_file_delete:
  "map_of (fst st) p = Some n \<Longrightarrow> expired cfg now n \<Longrightarrow> os_path_join PDF_DIR filename = p \<Longrightarrow>
   map_of (fst (sweep_file cfg now filename st)) p = None"
  using sweep_try_delete [of st p n cfg now]
  by (auto simp: sweep_file_def map_of_filter_same)

lemma sweep_absent:
  "map_of (fst st) p = None \<Longrightarrow> map_of (fst (sweep cfg now names st)) p = None"
  by (induction names arbitrary: st) (auto simp: sweep_file_absent)

lemma sweep_keep:
  "map_of (fst st) p = Some n \<Longrightarrow> \<not> expired cfg now n \<Longrightarrow>
   map_of (fst (sweep cfg now names st)) p = Some n"
  by (induction names arbitrary: st) (auto simp: sweep_file_keep)

lemma sweep_delete:
  "map_of (fst st) p = Some n \<Longrightarrow> expired cfg now n \<Longrightarrow> p \<in> os_path_join PDF_DIR ` set names \<Longrightarrow>
   map_of (fst (sweep cfg now names st)) p = None"
proof (induction names arbitrary: st)
  case Nil
  then show ?case by simp
next
  case (Cons filename rest)
  show ?case
  proof (cases "os_path_join PDF_DIR filename = p")
    case True
    with Cons.prems have "map_of (fst (sweep_file cfg now filename st)) p = None"
      by (simp add: sweep_file_delete)
    then show ?thesis by (simp add: sweep_absent)
  next
    case False
    with Cons.prems have "map_of (fst (sweep_file cfg now filename st)) p = Some n"
      and "p \<in> os_path_join PDF_DIR ` set rest"
      by (auto simp: sweep_file_other)
    with Cons.IH Cons.prems(2) show ?thesis by simp
  qed
qed

lemma card_keys_removed:
  assumes "q \<in> fst ` set files"
  shows "card (fst ` set files - fst ` set (filter (\<lambda>kv. fst kv \<noteq> q) files)) = 1"
proof -
  have "fst ` set files - (fst ` set files - {q}) = {q}"
    using assms by blast
  then have "fst ` set files - fst ` set (filter (\<lambda>kv. fst kv \<noteq> q) files) = {q}"
    by (simp only: keys_filter)
  then show ?thesis
    by (simp only: card.empty card_insert_disjoint finite.emptyI empty_iff not_False_eq_True)
qed

lemma keys_filter_subset:
  "fst ` set (filter (\<lambda>kv. fst kv \<noteq> q) files) \<subseteq> fst ` set files"
  by (simp only: keys_filter Diff_subset)

lemma sweep_file_tally:
  "fst ` set (fst (sweep_file cfg now filename st)) \<subseteq> fst ` set (fst st) \<and>
   snd (sweep_file cfg now filename st) =
     snd st + card (fst ` set (fst st) - fst ` set (fst (sweep_file cfg now filename st)))"
proof -
  from sweep_file_cases [of cfg now filename st] show ?thesis
  proof
    assume "sweep_file cfg now filename st = st"
    then show ?thesis by simp
  next
    let ?p = "os_path_join PDF_DIR filename"
    assume h: "map_of (fst st) ?p \<noteq> None \<and>
      sweep_file cfg now filename st = (filter (\<lambda>kv. fst kv \<noteq> ?p) (fst st), snd st + 1)"
    then have "?p \<in> fst ` set (fst st)"
      by (metis map_of_eq_None_iff)
    then have c: "card (fst ` set (fst st) - fst ` set (filter (\<lambda>kv. fst kv \<noteq> ?p) (fst st))) = 1"
      by (rule card_keys_removed)
    from h have e: "sweep_file cfg now filename st = (filter (\<lambda>kv. fst kv \<noteq> ?p) (fst st), snd st + 1)"
      by blast
    show ?thesis
      unfolding e fst_conv snd_conv c using keys_filter_subset [of ?p "fst st"] by blast
  qed
qed

lemma sweep_tally:
  "fst ` set (fst (sweep cfg now names st)) \<subseteq> fst ` set (fst st) \<and>
   snd (sweep cfg now names st) =
     snd st + card (fst ` set (fst st) - fst ` set (fst (sweep cfg now names st)))"
proof (induction names arbitrary: st)
  case Nil
  then show ?case by simp
next
  case (Cons filename rest)
  let ?st1 = "sweep_file cfg now filename st"
  let ?st2 = "sweep cfg now rest ?st1"
  let ?A = "fst ` set (fst st)" and ?B = "fst ` set (fst ?st1)" and ?C = "fst ` set (fst ?st2)"
  have 1: "?B \<subseteq> ?A" "snd ?st1 = snd st + card (?A - ?B)"
    using sweep_file_tally [of cfg now filename st] by auto
  have 2: "?C \<subseteq> ?B" "snd ?st2 = snd ?st1 + card (?B - ?C)"
    using Cons.IH [of ?st1] by auto
  have "finite ?A" by simp
  have "?A - ?C = (?A - ?B) \<union> (?B - ?C)" "(?A - ?B) \<inter> (?B - ?C) = {}"
    using 1(1) 2(1) by auto
  then have "card (?A - ?C) = card (?A - ?B) + card (?B - ?C)"
    by (metis \<open>finite ?A\<close> card_Un_disjoint finite_Diff finite_subset 1(1))
  with 1 2 show ?case by auto
qed

lemma sweep_append:
  "sweep cfg now (xs @ ys) st = sweep cfg now ys (sweep cfg now xs st)"
  by (induction xs arbitrary: st) auto

lemma sweep_cycle_Inr:
  "listdir_error w = None \<Longrightarrow>
   sweep_cycle cfg w =
     (let names = remdups (List.map_filter (entry_name PDF_DIR) (map fst (fs w)));
          st = sweep cfg (clock w) names (fs w, 0)
      in Inr (w\<lparr>fs := fst st,
               stdout := (if snd st > 0 then stdout w @ [cleanup_message (snd st)] else stdout w)\<rparr>))"
  by (simp add: sweep_cycle_def os_listdir_def Let_def)








lemma isfile_True_node:
  "os_path_isfile files p = Inr True \<Longrightarrow> \<exists>n. map_of files p = Some n \<and> isfile_result n = Inr True"
  by (auto simp: os_path_isfile_def split: option.splits)

text \<open>Unfolding the model on concrete inputs.\<close>

lemmas example_worlds =
  world_at_def plain_file_def locked_file_def vanished_file_def default_config_def

lemmas sweep_defs =
  sweep_cycle_def os_listdir_def entry_name_def PDF_DIR_def sweep_file_def sweep_try_def
  os_path_join_def os_path_isfile_def os_path_getmtime_def os_remove_def exists_path_def
  cleanup_message_def Let_def

section \<open>Claims about the retention sweeper\<close>

text \<open>
  C2, as amended. For a directory entry that \<^verbatim>\<open>os.path.isfile\<close> reports as a regular
  file and whose modification time \<open>m\<close> can be read, one cycle removes the file exactly
  when its age \<open>now - m\<close> exceeds the retention threshold and \<^verbatim>\<open>os.remove\<close> does not
  raise; a file whose age does not exceed the threshold is left as it was.
\<close>

theorem sweep_cycle_removes_iff:
  assumes "os_listdir w PDF_DIR = Inr names"
    and "filename \<in> set names"
    and "file_path = os_path_join PDF_DIR filename"
    and "os_path_isfile (fs w) file_path = Inr True"
    and "os_path_getmtime (fs w) file_path = Inr m"
  shows "\<exists>w'. sweep_cycle cfg w = Inr w' \<and>
           (\<not> exists_path (fs w') file_path \<longleftrightarrow>
              clock w - m > of_int (PDF_RETENTION_SECONDS cfg) \<and>
              (\<exists>files'. os_remove (fs w) file_path = Inr files')) \<and>
           (\<not> clock w - m > of_int (PDF_RETENTION_SECONDS cfg) \<longrightarrow>
              map_of (fs w') file_path = map_of (fs w) file_path)"
proof -
  let ?st = "sweep cfg (clock w) names (fs w, 0)"
  from assms(4) obtain n where n: "map_of (fs w) file_path = Some n" "isfile_result n = Inr True"
    using isfile_True_node by blast
  with assms(5) have m: "getmtime_result n = Inr m"
    by (simp add: os_path_getmtime_def)
  have rm: "(\<exists>files'. os_remove (fs w) file_path = Inr files') \<longleftrightarrow> remove_result n = None"
    using n by (auto simp: os_remove_def split: option.splits)
  have ex: "expired cfg (clock w) n \<longleftrightarrow>
      clock w - m > of_int (PDF_RETENTION_SECONDS cfg) \<and> remove_result n = None"
    using n m by (simp add: expired_def)
  have cyc: "sweep_cycle cfg w =
      Inr (w\<lparr>fs := fst ?st,
             stdout := (if snd ?st > 0 then stdout w @ [cleanup_message (snd ?st)] else stdout w)\<rparr>)"
    using assms(1) by (simp add: sweep_cycle_def Let_def)
  have after: "map_of (fst ?st) file_path = (if expired cfg (clock w) n then None else Some n)"
  proof (cases "expired cfg (clock w) n")
    case True
    have "file_path \<in> os_path_join PDF_DIR ` set names"
      using assms(2,3) by blast
    with True n(1) show ?thesis
      using sweep_delete [of "(fs w, 0)" file_path n cfg "clock w" names] by simp
  next
    case False
    with n(1) show ?thesis
      using sweep_keep [of "(fs w, 0)" file_path n cfg "clock w" names] by simp
  qed
  show ?thesis
    unfolding cyc using after ex rm n(1) by (auto simp: exists_path_def)
qed

theorem sweep_cycle_removes_iff_witness:
  "os_listdir two_files_world PDF_DIR = Inr [''a.pdf'', ''b.pdf''] \<and>
   os_path_isfile (fs two_files_world) ''generated_pdfs/a.pdf'' = Inr True \<and>
   os_path_getmtime (fs two_files_world) ''generated_pdfs/a.pdf'' = Inr 0 \<and>
   (\<exists>w'. sweep_cycle default_config two_files_world = Inr w' \<and>
         \<not> exists_path (fs w') ''generated_pdfs/a.pdf'')"
proof -
  have 1: "os_listdir two_files_world PDF_DIR = Inr [''a.pdf'', ''b.pdf'']"
    by (simp add: two_files_world_def example_worlds sweep_defs)
  have 2: "''a.pdf'' \<in> set [''a.pdf'', ''b.pdf'']"
    by simp
  have 3: "''generated_pdfs/a.pdf'' = os_path_join PDF_DIR ''a.pdf''"
    by (simp add: sweep_defs)
  have 4: "os_path_isfile (fs two_files_world) ''generated_pdfs/a.pdf'' = Inr True"
    by (simp add: two_files_world_def example_worlds sweep_defs)
  have 5: "os_path_getmtime (fs two_files_world) ''generated_pdfs/a.pdf'' = Inr 0"
    by (simp add: two_files_world_def example_worlds sweep_defs)
  have 6: "os_remove (fs two_files_world) ''generated_pdfs/a.pdf'' =
      Inr [(''generated_pdfs/b.pdf'', plain_file 6400)]"
    by (simp add: two_files_world_def example_worlds sweep_defs)
  have 7: "clock two_files_world = 10000" "PDF_RETENTION_SECONDS default_config = 3600"
    by (simp_all add: two_files_world_def example_worlds)
  from sweep_cycle_removes_iff [OF 1 2 3 4 5, of default_config] 1 4 5 show ?thesis
    unfolding 6 7 by auto
qed

text \<open>
  C2 as stated fails where \<^verbatim>\<open>os.remove\<close> raises: the file below is a regular file of
  age 10000 seconds, over the threshold of 3600, and the cycle leaves it in place.
\<close>

theorem locked_file_outlives_threshold:
  "os_listdir locked_world PDF_DIR = Inr [''a.pdf''] \<and>
   os_path_isfile (fs locked_world) (os_path_join PDF_DIR ''a.pdf'') = Inr True \<and>
   os_path_getmtime (fs locked_world) (os_path_join PDF_DIR ''a.pdf'') = Inr 0 \<and>
   clock locked_world - 0 > of_int (PDF_RETENTION_SECONDS default_config) \<and>
   sweep_cycle default_config locked_world = Inr locked_world \<and>
   exists_path (fs locked_world) (os_path_join PDF_DIR ''a.pdf'')"
  by (simp add: locked_world_def example_worlds sweep_defs)

text \<open>
  C10. A regular file whose age equals the retention threshold is not deleted: the
  test is \<^verbatim>\<open>age > PDF_RETENTION_SECONDS\<close>, strict.
\<close>

theorem boundary_age_survives:
  assumes "listdir_error w = None"
    and "os_path_isfile (fs w) file_path = Inr True"
    and "os_path_getmtime (fs w) file_path = Inr m"
    and "clock w - m = of_int (PDF_RETENTION_SECONDS cfg)"
  shows "\<exists>w'. sweep_cycle cfg w = Inr w' \<and> exists_path (fs w') file_path \<and>
           map_of (fs w') file_path = map_of (fs w) file_path"
proof -
  from assms(2) obtain n where n: "map_of (fs w) file_path = Some n" "isfile_result n = Inr True"
    using isfile_True_node by blast
  with assms(3) have "getmtime_result n = Inr m"
    by (simp add: os_path_getmtime_def)
  with assms(4) have "\<not> expired cfg (clock w) n"
    by (simp add: expired_def)
  with n(1) have "map_of (fst (sweep cfg (clock w) names (fs w, 0))) file_path = Some n" for names
    using sweep_keep [of "(fs w, 0)" file_path n cfg "clock w" names] by simp
  with n(1) assms(1) show ?thesis
    by (simp add: sweep_cycle_Inr Let_def exists_path_def)
qed

theorem boundary_age_survives_witness:
  "listdir_error (world_at 3600 [(''generated_pdfs/a.pdf'', plain_file 0)]) = None \<and>
   clock (world_at 3600 [(''generated_pdfs/a.pdf'', plain_file 0)]) - 0 =
     of_int (PDF_RETENTION_SECONDS default_config) \<and>
   (\<exists>w'. sweep_cycle default_config (world_at 3600 [(''generated_pdfs/a.pdf'', plain_file 0)]) = Inr w' \<and>
         exists_path (fs w') ''generated_pdfs/a.pdf'')"
proof -
  let ?w = "world_at 3600 [(''generated_pdfs/a.pdf'', plain_file 0)]"
  have 1: "listdir_error ?w = None"
    by (simp add: example_worlds)
  have 2: "os_path_isfile (fs ?w) ''generated_pdfs/a.pdf'' = Inr True"
    by (simp add: example_worlds sweep_defs)
  have 3: "os_path_getmtime (fs ?w) ''generated_pdfs/a.pdf'' = Inr 0"
    by (simp add: example_worlds sweep_defs)
  have 4: "clock ?w - 0 = of_int (PDF_RETENTION_SECONDS default_config)"
    by (simp add: example_worlds)
  from boundary_age_survives [OF 1 2 3 4] 1 4 show ?thesis
    by blast
qed

text \<open>
  C6. An exception raised while one directory entry is handled (by the type check, by
  reading the modification time or by the deletion) is caught: the state is what it was
  before that entry, the entries after it are processed from that state, and the cycle
  completes with a result.
\<close>

theorem per_file_error_is_suppressed:
  assumes "os_listdir w PDF_DIR = Inr (before @ filename # after)"
    and "sweep_try cfg (clock w) (os_path_join PDF_DIR filename)
           (sweep cfg (clock w) before (fs w, 0)) = Inl e"
  shows "sweep_file cfg (clock w) filename (sweep cfg (clock w) before (fs w, 0)) =
           sweep cfg (clock w) before (fs w, 0) \<and>
         sweep cfg (clock w) (before @ filename # after) (fs w, 0) =
           sweep cfg (clock w) after (sweep cfg (clock w) before (fs w, 0)) \<and>
         (\<exists>w'. sweep_cycle cfg w = Inr w' \<and>
               fs w' = fst (sweep cfg (clock w) after (sweep cfg (clock w) before (fs w, 0))))"
proof -
  have skip: "sweep_file cfg (clock w) filename (sweep cfg (clock w) before (fs w, 0)) =
      sweep cfg (clock w) before (fs w, 0)"
    using assms(2) by (simp add: sweep_file_def)
  then have all: "sweep cfg (clock w) (before @ filename # after) (fs w, 0) =
      sweep cfg (clock w) after (sweep cfg (clock w) before (fs w, 0))"
    by (simp add: sweep_append)
  have "\<exists>w'. sweep_cycle cfg w = Inr w' \<and>
      fs w' = fst (sweep cfg (clock w) (before @ filename # after) (fs w, 0))"
    using assms(1) by (simp add: sweep_cycle_def Let_def)
  with skip all show ?thesis by simp
qed

theorem per_file_error_is_suppressed_witness:
  "os_listdir racing_world PDF_DIR = Inr ([] @ ''a.pdf'' # [''b.pdf'']) \<and>
   sweep_try default_config (clock racing_world) (os_path_join PDF_DIR ''a.pdf'')
     (sweep default_config (clock racing_world) [] (fs racing_world, 0)) = Inl FileNotFoundError \<and>
   (\<exists>w'. sweep_cycle default_config racing_world = Inr w' \<and>
         fs w' = [(''generated_pdfs/a.pdf'', vanished_file)])"
proof -
  have 1: "os_listdir racing_world PDF_DIR = Inr ([] @ ''a.pdf'' # [''b.pdf''])"
    by (simp add: racing_world_def example_worlds sweep_defs)
  have 2: "sweep_try default_config (clock racing_world) (os_path_join PDF_DIR ''a.pdf'')
      (sweep default_config (clock racing_world) [] (fs racing_world, 0)) = Inl FileNotFoundError"
    by (simp add: racing_world_def example_worlds sweep_defs)
  have 3: "fst (sweep default_config (clock racing_world) [''b.pdf'']
      (sweep default_config (clock racing_world) [] (fs racing_world, 0))) =
      [(''generated_pdfs/a.pdf'', vanished_file)]"
    by (simp add: racing_world_def example_worlds sweep_defs)
  from per_file_error_is_suppressed [OF 1 2] 1 2 show ?thesis
    unfolding 3 by blast
qed

text \<open>
  C7. The tally of a cycle is the number of paths the cycle deleted, and the cycle
  prints one line, carrying the tally, exactly when the tally is not zero.
\<close>

theorem tally_logged_iff_nonzero:
  assumes "listdir_error w = None"
  shows "\<exists>w'. sweep_cycle cfg w = Inr w' \<and>
           fst ` set (fs w') \<subseteq> fst ` set (fs w) \<and>
           stdout w' =
             (if card (fst ` set (fs w) - fst ` set (fs w')) > 0
              then stdout w @ [cleanup_message (card (fst ` set (fs w) - fst ` set (fs w')))]
              else stdout w)"
proof -
  define st where
    "st = sweep cfg (clock w) (remdups (List.map_filter (entry_name PDF_DIR) (map fst (fs w)))) (fs w, 0)"
  define w' where
    "w' = w\<lparr>fs := fst st,
            stdout := (if snd st > 0 then stdout w @ [cleanup_message (snd st)] else stdout w)\<rparr>"
  have keys: "fst ` set (fst st) \<subseteq> fst ` set (fs w)"
    and tally: "card (fst ` set (fs w) - fst ` set (fst st)) = snd st"
    using sweep_tally [of cfg "clock w" _ "(fs w, 0)"] unfolding st_def by simp_all
  have cyc: "sweep_cycle cfg w = Inr w'"
    using assms unfolding w'_def st_def by (simp add: sweep_cycle_Inr Let_def)
  have files: "fs w' = fst st"
    by (simp add: w'_def)
  have out: "stdout w' =
      (if snd st > 0 then stdout w @ [cleanup_message (snd st)] else stdout w)"
    by (simp add: w'_def)
  have "fst ` set (fs w') \<subseteq> fst ` set (fs w)"
    unfolding files by (rule keys)
  moreover have "stdout w' =
      (if card (fst ` set (fs w) - fst ` set (fs w')) > 0
       then stdout w @ [cleanup_message (card (fst ` set (fs w) - fst ` set (fs w')))]
       else stdout w)"
    unfolding files tally by (rule out)
  ultimately show ?thesis
    using cyc by blast
qed

theorem tally_logged_iff_nonzero_witness:
  "listdir_error two_files_world = None \<and>
   sweep_cycle default_config two_files_world =
     Inr (two_files_world\<lparr>fs := [(''generated_pdfs/b.pdf'', plain_file 6400)],
                          stdout := [''[CLEANUP] Removed 1 expired PDF(s)'']\<rparr>) \<and>
   sweep_cycle default_config locked_world = Inr locked_world \<and>
   stdout locked_world = []"
proof -
  have 1: "listdir_error two_files_world = None"
    by (simp add: two_files_world_def example_worlds)
  have 2: "sweep_cycle default_config two_files_world =
     Inr (two_files_world\<lparr>fs := [(''generated_pdfs/b.pdf'', plain_file 6400)],
                          stdout := [''[CLEANUP] Removed 1 expired PDF(s)'']\<rparr>)"
    by (simp add: two_files_world_def example_worlds sweep_defs str_nat.simps)
  have 3: "sweep_cycle default_config locked_world = Inr locked_world \<and> stdout locked_world = []"
    by (simp add: locked_world_def example_worlds sweep_defs)
  from tally_logged_iff_nonzero [OF 1, of default_config] 1 2 3 show ?thesis
    by blast
qed



section \<open>Facts about the render handler\<close>

lemmas handler_defs =
  generate_pdf_def finish_pdf_def render_pdf_def invoke_def py_or_def os_path_join_def PDF_DIR_def
  Let_def

lemmas example_requests =
  post_request_def malformed_request_def default_config_def no_environ_def blank_base_environ_def

lemma key_in_object:
  "k \<in> fst ` set kvs \<longleftrightarrow> map_of kvs k \<noteq> None"
  by (simp add: map_of_eq_None_iff)

lemma fst_finish_pdf:
  "fst (finish_pdf cfg environ request pdf_id output_path eff) =
     Inr \<lparr>status_code = 200,
          content = [(''pdf_url'',
            (case environ ''PDF_BASE_URL'' of
               Some b \<Rightarrow>
                 if b \<noteq> [] then b
                 else url_scheme request @ ''://'' @
                   (case host_header request of
                      Some h \<Rightarrow> h
                    | None \<Rightarrow> ''localhost:'' @
                        (case environ ''PORT'' of Some p \<Rightarrow> p | None \<Rightarrow> ''8080''))
             | None \<Rightarrow>
                 url_scheme request @ ''://'' @
                   (case host_header request of
                      Some h \<Rightarrow> h
                    | None \<Rightarrow> ''localhost:'' @
                        (case environ ''PORT'' of Some p \<Rightarrow> p | None \<Rightarrow> ''8080'')))
            @ ''/pdfs/'' @ pdf_id @ ''.pdf'')]\<rparr>"
  by (cases "environ ''PDF_BASE_URL''") (simp_all add: finish_pdf_def Let_def)

lemma generate_pdf_from_page:
  "generate_pdf cfg environ request pdf_id =
     (case json_body request of
        None \<Rightarrow> (Inl JSONDecodeError, \<lparr>calls = [], written = []\<rparr>)
      | Some data \<Rightarrow>
     (case py_contains ''html'' data of
        Inl e \<Rightarrow> (Inl e, open_page cfg request)
      | Inr True \<Rightarrow>
          (case py_getitem data ''html'' of
             Inl e \<Rightarrow> (Inl e, open_page cfg request)
           | Inr html \<Rightarrow>
               finish_pdf cfg environ request pdf_id (os_path_join PDF_DIR (pdf_id @ ''.pdf''))
                 (invoke (SetContent html ''networkidle'') (open_page cfg request)))
      | Inr False \<Rightarrow>
          (case py_contains ''url'' data of
             Inl e \<Rightarrow> (Inl e, open_page cfg request)
           | Inr True \<Rightarrow>
               (case py_getitem data ''url'' of
                  Inl e \<Rightarrow> (Inl e, open_page cfg request)
                | Inr url \<Rightarrow>
                    finish_pdf cfg environ request pdf_id (os_path_join PDF_DIR (pdf_id @ ''.pdf''))
                      (invoke (Goto url ''networkidle'') (open_page cfg request)))
           | Inr False \<Rightarrow>
               (Inr \<lparr>status_code = 400,
                     content = [(''error'', ''Provide either 'html' or 'url' in the JSON body.'')]\<rparr>,
                invoke Close (open_page cfg request)))))"
  unfolding generate_pdf_def open_page_def Let_def ..

lemma generate_pdf_success_cases:
  assumes "fst (generate_pdf cfg environ request pdf_id) = Inr resp"
    and "status_code resp = 200"
  shows "\<exists>eff. fst (finish_pdf cfg environ request pdf_id
                     (os_path_join PDF_DIR (pdf_id @ ''.pdf'')) eff) = Inr resp"
proof (cases "json_body request")
  case None
  with assms(1) show ?thesis
    by (simp add: generate_pdf_from_page)
next
  case body: (Some data)
  show ?thesis
  proof (cases "py_contains ''html'' data")
    case (Inl e)
    with assms(1) body show ?thesis
      by (simp add: generate_pdf_from_page)
  next
    case html: (Inr has_html)
    show ?thesis
    proof (cases has_html)
      case True
      show ?thesis
      proof (cases "py_getitem data ''html''")
        case (Inl e)
        with assms(1) body html True show ?thesis
          by (simp add: generate_pdf_from_page)
      next
        case (Inr v)
        with assms(1) body html True show ?thesis
          by (simp add: generate_pdf_from_page) blast
      qed
    next
      case False
      show ?thesis
      proof (cases "py_contains ''url'' data")
        case (Inl e)
        with assms(1) body html False show ?thesis
          by (simp add: generate_pdf_from_page)
      next
        case url: (Inr has_url)
        show ?thesis
        proof (cases has_url)
          case no_url: False
          with assms body html False url show ?thesis
            by (auto simp: generate_pdf_from_page)
        next
          case yes_url: True
          show ?thesis
          proof (cases "py_getitem data ''url''")
            case (Inl e)
            with assms(1) body html False url yes_url show ?thesis
              by (simp add: generate_pdf_from_page)
          next
            case (Inr v)
            with assms(1) body html False url yes_url show ?thesis
              by (simp add: generate_pdf_from_page) blast
          qed
        qed
      qed
    qed
  qed
qed

lemma add_cookies_of_finish_pdf:
  "filter is_add_cookies (calls (snd (finish_pdf cfg environ request pdf_id output_path eff))) =
     filter is_add_cookies (calls eff)"
  by (simp add: finish_pdf_def render_pdf_def invoke_def Let_def)

lemma add_cookies_of_open_page:
  "filter is_add_cookies (calls (open_page cfg request)) =
     (case map_of (cookies request) ''token'' of
        None \<Rightarrow> []
      | Some token \<Rightarrow>
          if token \<noteq> [] then
            [AddCookies [\<lparr>cookie_name = ''token'', cookie_value = token,
                          cookie_domain =
                            py_or (PDF_COOKIE_DOMAIN cfg) (py_or (url_hostname request) ''localhost''),
                          cookie_path = ''/''\<rparr>]]
          else [])"
  by (simp add: open_page_def invoke_def Let_def split: option.splits)

lemma add_cookies_of_generate_pdf:
  "filter is_add_cookies (calls (snd (generate_pdf cfg environ request pdf_id))) =
     (case json_body request of
        None \<Rightarrow> []
      | Some data \<Rightarrow> filter is_add_cookies (calls (open_page cfg request)))"
  by (simp add: generate_pdf_from_page add_cookies_of_finish_pdf invoke_def
      split: option.splits sum.splits bool.splits)

section \<open>Claims about the render handler\<close>

text \<open>
  C1, as amended. A request body for which both tests \<^verbatim>\<open>"html" in data\<close> and
  \<^verbatim>\<open>"url" in data\<close> are false, that is a JSON object with neither key, a JSON array
  with neither string among its elements, or a JSON string with neither as a substring,
  is answered with status 400 and an \<^verbatim>\<open>error\<close> field that names both keys; the handler
  makes no rendering call (no content set, no navigation, no media emulation, no PDF)
  and writes no file.
\<close>

theorem neither_key_is_client_error:
  assumes "json_body request = Some data"
    and "(\<exists>kvs. data = JObject kvs \<and> ''html'' \<notin> fst ` set kvs \<and> ''url'' \<notin> fst ` set kvs) \<or>
         (\<exists>xs. data = JList xs \<and> JStr ''html'' \<notin> set xs \<and> JStr ''url'' \<notin> set xs) \<or>
         (\<exists>s. data = JStr s \<and> \<not> str_contains ''html'' s \<and> \<not> str_contains ''url'' s)"
  shows "fst (generate_pdf cfg environ request pdf_id) =
           Inr \<lparr>status_code = 400,
                content = [(''error'', ''Provide either 'html' or 'url' in the JSON body.'')]\<rparr> \<and>
         filter is_render (calls (snd (generate_pdf cfg environ request pdf_id))) = [] \<and>
         written (snd (generate_pdf cfg environ request pdf_id)) = []"
proof -
  from assms(2) have "py_contains ''html'' data = Inr False" "py_contains ''url'' data = Inr False"
    by auto
  with assms(1) show ?thesis
    by (simp add: generate_pdf_from_page open_page_def invoke_def Let_def split: option.splits)
qed

theorem neither_key_is_client_error_witness:
  "json_body (post_request (JObject [(''markup'', JStr ''<p>hi</p>'')]) [(''token'', ''s3cret'')]) =
     Some (JObject [(''markup'', JStr ''<p>hi</p>'')]) \<and>
   ''html'' \<notin> fst ` set [(''markup'', JStr ''<p>hi</p>'')] \<and>
   ''url'' \<notin> fst ` set [(''markup'', JStr ''<p>hi</p>'')] \<and>
   generate_pdf default_config no_environ
       (post_request (JObject [(''markup'', JStr ''<p>hi</p>'')]) [(''token'', ''s3cret'')]) ''abc'' =
     (Inr \<lparr>status_code = 400,
           content = [(''error'', ''Provide either 'html' or 'url' in the JSON body.'')]\<rparr>,
      \<lparr>calls = [Launch, NewContext,
                 AddCookies [\<lparr>cookie_name = ''token'', cookie_value = ''s3cret'',
                              cookie_domain = ''pdf.example.com'', cookie_path = ''/''\<rparr>],
                 NewPage, Close],
        written = []\<rparr>)"
proof -
  let ?kvs = "[(''markup'', JStr ''<p>hi</p>'')]"
  let ?req = "post_request (JObject ?kvs) [(''token'', ''s3cret'')]"
  have 1: "json_body ?req = Some (JObject ?kvs)"
    by (simp add: post_request_def)
  have 2: "''html'' \<notin> fst ` set ?kvs"
    by simp
  have 3: "''url'' \<notin> fst ` set ?kvs"
    by simp
  have 4: "snd (generate_pdf default_config no_environ ?req ''abc'') =
      \<lparr>calls = [Launch, NewContext,
                 AddCookies [\<lparr>cookie_name = ''token'', cookie_value = ''s3cret'',
                              cookie_domain = ''pdf.example.com'', cookie_path = ''/''\<rparr>],
                 NewPage, Close],
        written = []\<rparr>"
    by (simp add: handler_defs example_requests)
  have 5: "(\<exists>kvs. JObject ?kvs = JObject kvs \<and> ''html'' \<notin> fst ` set kvs \<and> ''url'' \<notin> fst ` set kvs) \<or>
         (\<exists>xs. JObject ?kvs = JList xs \<and> JStr ''html'' \<notin> set xs \<and> JStr ''url'' \<notin> set xs) \<or>
         (\<exists>s. JObject ?kvs = JStr s \<and> \<not> str_contains ''html'' s \<and> \<not> str_contains ''url'' s)"
    using 2 3 by blast
  from neither_key_is_client_error [OF 1 5, of default_config no_environ "''abc''"] 4
  have "generate_pdf default_config no_environ ?req ''abc'' =
     (Inr \<lparr>status_code = 400,
           content = [(''error'', ''Provide either 'html' or 'url' in the JSON body.'')]\<rparr>,
      \<lparr>calls = [Launch, NewContext,
                 AddCookies [\<lparr>cookie_name = ''token'', cookie_value = ''s3cret'',
                              cookie_domain = ''pdf.example.com'', cookie_path = ''/''\<rparr>],
                 NewPage, Close],
        written = []\<rparr>)"
    by (simp add: prod_eq_iff)
  with 1 2 3 show ?thesis by blast
qed

text \<open>
  C1 as stated fails for a body that is \<^verbatim>\<open>null\<close> or a number: it contains neither key,
  the test \<^verbatim>\<open>"html" in data\<close> raises \<^verbatim>\<open>TypeError\<close>, and the request ends in a server
  error. It fails as well for a body that is not JSON, where \<^verbatim>\<open>request.json()\<close> raises.
\<close>

theorem null_body_is_server_error:
  "fst (generate_pdf default_config no_environ (post_request JNull []) ''abc'') = Inl TypeError \<and>
   fst (generate_pdf default_config no_environ (post_request (JNum ''5'') []) ''abc'') =
     Inl TypeError \<and>
   fst (generate_pdf default_config no_environ (malformed_request []) ''abc'') =
     Inl JSONDecodeError"
  by (simp add: handler_defs example_requests)

text \<open>
  C3. When the body is an object with both keys, the handler sets the page content to
  the value of \<^verbatim>\<open>html\<close>, once, and never navigates: \<^verbatim>\<open>"html" in data\<close> is tested first.
  The request then completes with status 200 and the file written.
\<close>

theorem html_wins_over_url:
  assumes "json_body request = Some (JObject kvs)"
    and "map_of kvs ''html'' = Some html"
    and "map_of kvs ''url'' = Some url"
  shows "filter is_set_content (calls (snd (generate_pdf cfg environ request pdf_id))) =
           [SetContent html ''networkidle''] \<and>
         filter is_goto (calls (snd (generate_pdf cfg environ request pdf_id))) = [] \<and>
         (\<exists>resp. fst (generate_pdf cfg environ request pdf_id) = Inr resp \<and> status_code resp = 200) \<and>
         written (snd (generate_pdf cfg environ request pdf_id)) =
           [os_path_join PDF_DIR (pdf_id @ ''.pdf'')]"
proof -
  from assms(2) have "''html'' \<in> fst ` set kvs"
    by (simp add: key_in_object)
  with assms(1,2) show ?thesis
    by (simp add: generate_pdf_from_page open_page_def finish_pdf_def render_pdf_def invoke_def
        Let_def split: option.splits)
qed

theorem html_wins_over_url_witness:
  "map_of [(''url'', JStr ''https://example.com''), (''html'', JStr ''<p>hi</p>'')] ''html'' =
     Some (JStr ''<p>hi</p>'') \<and>
   map_of [(''url'', JStr ''https://example.com''), (''html'', JStr ''<p>hi</p>'')] ''url'' =
     Some (JStr ''https://example.com'') \<and>
   calls (snd (generate_pdf default_config no_environ
       (post_request (JObject [(''url'', JStr ''https://example.com''), (''html'', JStr ''<p>hi</p>'')]) [])
       ''abc'')) =
     [Launch, NewContext, NewPage, SetContent (JStr ''<p>hi</p>'') ''networkidle'',
      EmulateMedia ''print'',
      Pdf \<lparr>pdf_path = ''generated_pdfs/abc.pdf'', pdf_format = ''A4'', pdf_print_background = False,
           pdf_scale = 6 / 10, pdf_margin_top = ''1cm'', pdf_margin_bottom = ''1cm'',
           pdf_margin_left = ''1cm'', pdf_margin_right = ''1cm''\<rparr>,
      Close] \<and>
   filter is_goto (calls (snd (generate_pdf default_config no_environ
       (post_request (JObject [(''url'', JStr ''https://example.com''), (''html'', JStr ''<p>hi</p>'')]) [])
       ''abc''))) = []"
proof -
  let ?kvs = "[(''url'', JStr ''https://example.com''), (''html'', JStr ''<p>hi</p>'')]"
  let ?req = "post_request (JObject ?kvs) []"
  have 1: "json_body ?req = Some (JObject ?kvs)"
    by (simp add: post_request_def)
  have 2: "map_of ?kvs ''html'' = Some (JStr ''<p>hi</p>'')"
    by simp
  have 3: "map_of ?kvs ''url'' = Some (JStr ''https://example.com'')"
    by simp
  have 4: "calls (snd (generate_pdf default_config no_environ ?req ''abc'')) =
     [Launch, NewContext, NewPage, SetContent (JStr ''<p>hi</p>'') ''networkidle'',
      EmulateMedia ''print'',
      Pdf \<lparr>pdf_path = ''generated_pdfs/abc.pdf'', pdf_format = ''A4'', pdf_print_background = False,
           pdf_scale = 6 / 10, pdf_margin_top = ''1cm'', pdf_margin_bottom = ''1cm'',
           pdf_margin_left = ''1cm'', pdf_margin_right = ''1cm''\<rparr>,
      Close]"
    by (simp add: handler_defs example_requests)
  from html_wins_over_url [OF 1 2 3, of default_config no_environ "''abc''"] 2 3 4
  show ?thesis by blast
qed

text \<open>
  C4, as amended. A request answered with status 200 carries the single field
  \<^verbatim>\<open>pdf_url\<close>, equal to \<open>B + "/pdfs/" + id + ".pdf"\<close>. \<open>B\<close> is the value of the environment
  variable \<^verbatim>\<open>PDF_BASE_URL\<close> when that is set to a non-empty string. Otherwise \<open>B\<close> is
  \<open>scheme + "://" + host\<close>, with the scheme of the request URL and with \<open>host\<close> the
  \<^verbatim>\<open>Host\<close> header of the request, or \<^verbatim>\<open>localhost:\<close> followed by the environment variable
  \<^verbatim>\<open>PORT\<close> (8080 when unset) for a request without that header.
\<close>

theorem pdf_url_of_success:
  assumes "fst (generate_pdf cfg environ request pdf_id) = Inr resp"
    and "status_code resp = 200"
  shows "\<exists>B. content resp = [(''pdf_url'', B @ ''/pdfs/'' @ pdf_id @ ''.pdf'')] \<and>
           (\<forall>b. environ ''PDF_BASE_URL'' = Some b \<and> b \<noteq> [] \<longrightarrow> B = b) \<and>
           (environ ''PDF_BASE_URL'' = None \<or> environ ''PDF_BASE_URL'' = Some [] \<longrightarrow>
              (\<forall>h. host_header request = Some h \<longrightarrow> B = url_scheme request @ ''://'' @ h) \<and>
              (host_header request = None \<longrightarrow>
                 (\<forall>p. environ ''PORT'' = Some p \<longrightarrow>
                    B = url_scheme request @ ''://'' @ ''localhost:'' @ p) \<and>
                 (environ ''PORT'' = None \<longrightarrow>
                    B = url_scheme request @ ''://'' @ ''localhost:8080'')))"
proof -
  from generate_pdf_success_cases [OF assms] obtain eff where
    "fst (finish_pdf cfg environ request pdf_id (os_path_join PDF_DIR (pdf_id @ ''.pdf'')) eff) =
       Inr resp"
    by blast
  then have c: "content resp =
      content \<lparr>status_code = 200,
          content = [(''pdf_url'',
            (case environ ''PDF_BASE_URL'' of
               Some b \<Rightarrow>
                 if b \<noteq> [] then b
                 else url_scheme request @ ''://'' @
                   (case host_header request of
                      Some h \<Rightarrow> h
                    | None \<Rightarrow> ''localhost:'' @
                        (case environ ''PORT'' of Some p \<Rightarrow> p | None \<Rightarrow> ''8080''))
             | None \<Rightarrow>
                 url_scheme request @ ''://'' @
                   (case host_header request of
                      Some h \<Rightarrow> h
                    | None \<Rightarrow> ''localhost:'' @
                        (case environ ''PORT'' of Some p \<Rightarrow> p | None \<Rightarrow> ''8080'')))
            @ ''/pdfs/'' @ pdf_id @ ''.pdf'')]\<rparr>"
    unfolding fst_finish_pdf by (simp only: sum.inject)
  show ?thesis
  proof (cases "environ ''PDF_BASE_URL''")
    case None
    show ?thesis
    proof (cases "host_header request")
      case host: None
      show ?thesis
        using c None host by (cases "environ ''PORT''") simp_all
    next
      case (Some h)
      with c None show ?thesis by simp
    qed
  next
    case base: (Some b)
    show ?thesis
    proof (cases "b = []")
      case False
      with c base show ?thesis by simp
    next
      case True
      show ?thesis
      proof (cases "host_header request")
        case host: None
        show ?thesis
          using c base True host by (cases "environ ''PORT''") simp_all
      next
        case (Some h)
        with c base True show ?thesis by simp
      qed
    qed
  qed
qed

theorem pdf_url_of_success_witness:
  "fst (generate_pdf default_config no_environ
          (post_request (JObject [(''html'', JStr ''<p>hi</p>'')]) []) ''abc'') =
     Inr \<lparr>status_code = 200,
          content = [(''pdf_url'', ''http://pdf.example.com:8080/pdfs/abc.pdf'')]\<rparr> \<and>
   (\<exists>B. [(''pdf_url'', ''http://pdf.example.com:8080/pdfs/abc.pdf'')] =
          [(''pdf_url'', B @ ''/pdfs/'' @ ''abc'' @ ''.pdf'')] \<and>
        B = ''http://pdf.example.com:8080'')"
proof -
  let ?req = "post_request (JObject [(''html'', JStr ''<p>hi</p>'')]) []"
  let ?resp = "\<lparr>status_code = 200,
      content = [(''pdf_url'', ''http://pdf.example.com:8080/pdfs/abc.pdf'')]\<rparr>"
  have 1: "fst (generate_pdf default_config no_environ ?req ''abc'') = Inr ?resp"
    by (simp add: handler_defs example_requests)
  have 2: "status_code ?resp = 200"
    by simp
  have 3: "no_environ ''PDF_BASE_URL'' = None"
    "host_header ?req = Some ''pdf.example.com:8080''" "url_scheme ?req = ''http''"
    by (simp_all add: example_requests)
  from pdf_url_of_success [OF 1 2] obtain B where
    B: "content ?resp = [(''pdf_url'', B @ ''/pdfs/'' @ ''abc'' @ ''.pdf'')]"
      "B = url_scheme ?req @ ''://'' @ ''pdf.example.com:8080''"
    using 3 by blast
  from B(2) have "B = ''http://pdf.example.com:8080''"
    by (simp add: 3)
  with B(1) 1 show ?thesis by simp
qed

text \<open>
  C4 as stated fails for an override that is set to the empty string: the handler
  treats it as unset and derives the base from the request.
\<close>

theorem blank_base_url_is_ignored:
  "blank_base_environ ''PDF_BASE_URL'' = Some [] \<and>
   fst (generate_pdf default_config blank_base_environ
          (post_request (JObject [(''html'', JStr ''<p>hi</p>'')]) []) ''abc'') =
     Inr \<lparr>status_code = 200,
          content = [(''pdf_url'', ''http://pdf.example.com:8080/pdfs/abc.pdf'')]\<rparr> \<and>
   ''http://pdf.example.com:8080/pdfs/abc.pdf'' \<noteq> [] @ ''/pdfs/'' @ ''abc'' @ ''.pdf''"
  by (simp add: handler_defs example_requests)

text \<open>
  C5, as amended. For a request whose body is JSON and whose cookie \<^verbatim>\<open>token\<close> has a
  non-empty value, the handler adds exactly one cookie to the browser context: name
  \<^verbatim>\<open>token\<close>, that value, path \<^verbatim>\<open>/\<close>, and as domain the configured \<^verbatim>\<open>PDF_COOKIE_DOMAIN\<close>
  when that is set and not empty, otherwise the host name of the request URL when there
  is one and it is not empty, otherwise \<^verbatim>\<open>localhost\<close>. For a request without a cookie
  \<^verbatim>\<open>token\<close>, and for a request whose body is not JSON, no cookie is added.
\<close>

theorem token_cookie_forwarded:
  "(\<forall>data token.
      json_body request = Some data \<and>
      map_of (cookies request) ''token'' = Some token \<and> token \<noteq> [] \<longrightarrow>
      filter is_add_cookies (calls (snd (generate_pdf cfg environ request pdf_id))) =
        [AddCookies [\<lparr>cookie_name = ''token'', cookie_value = token,
           cookie_domain =
             (case PDF_COOKIE_DOMAIN cfg of
                Some d \<Rightarrow>
                  if d \<noteq> [] then d
                  else (case url_hostname request of
                          Some h \<Rightarrow> if h \<noteq> [] then h else ''localhost''
                        | None \<Rightarrow> ''localhost'')
              | None \<Rightarrow>
                  (case url_hostname request of
                     Some h \<Rightarrow> if h \<noteq> [] then h else ''localhost''
                   | None \<Rightarrow> ''localhost'')),
           cookie_path = ''/''\<rparr>]]) \<and>
   (map_of (cookies request) ''token'' = None \<or> json_body request = None \<longrightarrow>
      filter is_add_cookies (calls (snd (generate_pdf cfg environ request pdf_id))) = [])"
  unfolding add_cookies_of_generate_pdf add_cookies_of_open_page
  by (auto simp: py_or_def split: option.splits)

theorem token_cookie_forwarded_witness:
  "json_body (post_request (JObject [(''url'', JStr ''https://example.com'')])
                [(''lang'', ''en''), (''token'', ''s3cret'')]) =
     Some (JObject [(''url'', JStr ''https://example.com'')]) \<and>
   map_of (cookies (post_request (JObject [(''url'', JStr ''https://example.com'')])
                      [(''lang'', ''en''), (''token'', ''s3cret'')])) ''token'' = Some ''s3cret'' \<and>
   ''s3cret'' \<noteq> [] \<and>
   filter is_add_cookies (calls (snd (generate_pdf (default_config\<lparr>PDF_COOKIE_DOMAIN := Some ''example.com''\<rparr>)
       no_environ
       (post_request (JObject [(''url'', JStr ''https://example.com'')])
          [(''lang'', ''en''), (''token'', ''s3cret'')]) ''abc''))) =
     [AddCookies [\<lparr>cookie_name = ''token'', cookie_value = ''s3cret'',
                   cookie_domain = ''example.com'', cookie_path = ''/''\<rparr>]] \<and>
   map_of (cookies (post_request JNull [(''lang'', ''en'')])) ''token'' = None \<and>
   filter is_add_cookies (calls (snd (generate_pdf default_config no_environ
       (post_request JNull [(''lang'', ''en'')]) ''abc''))) = []"
proof -
  let ?cfg = "default_config\<lparr>PDF_COOKIE_DOMAIN := Some ''example.com''\<rparr>"
  let ?req = "post_request (JObject [(''url'', JStr ''https://example.com'')])
                [(''lang'', ''en''), (''token'', ''s3cret'')]"
  let ?req' = "post_request JNull [(''lang'', ''en'')]"
  have 0: "json_body ?req = Some (JObject [(''url'', JStr ''https://example.com'')])"
    by (simp add: example_requests)
  have 1: "map_of (cookies ?req) ''token'' = Some ''s3cret''" "''s3cret'' \<noteq> []"
    by (simp_all add: example_requests)
  have 2: "map_of (cookies ?req') ''token'' = None"
    by (simp add: example_requests)
  have 3: "PDF_COOKIE_DOMAIN ?cfg = Some ''example.com''"
    by simp
  from token_cookie_forwarded [of ?req ?cfg no_environ "''abc''"] 0 1
  have "filter is_add_cookies (calls (snd (generate_pdf ?cfg no_environ ?req ''abc''))) =
     [AddCookies [\<lparr>cookie_name = ''token'', cookie_value = ''s3cret'',
                   cookie_domain = ''example.com'', cookie_path = ''/''\<rparr>]]"
    unfolding 3 by simp
  moreover from token_cookie_forwarded [of ?req' default_config no_environ "''abc''"] 2
  have "filter is_add_cookies (calls (snd (generate_pdf default_config no_environ ?req' ''abc''))) = []"
    by blast
  ultimately show ?thesis using 0 1 2 by blast
qed

text \<open>
  C5 as stated fails for a cookie \<^verbatim>\<open>token\<close> that is present with the empty string as
  value, and for a request that carries the cookie with a body that is not JSON: no
  cookie is added.
\<close>

theorem blank_token_adds_no_cookie:
  "map_of (cookies (post_request (JObject [(''html'', JStr ''<p>hi</p>'')]) [(''token'', [])]))
     ''token'' = Some [] \<and>
   calls (snd (generate_pdf default_config no_environ
       (post_request (JObject [(''html'', JStr ''<p>hi</p>'')]) [(''token'', [])]) ''abc'')) =
     [Launch, NewContext, NewPage, SetContent (JStr ''<p>hi</p>'') ''networkidle'',
      EmulateMedia ''print'',
      Pdf \<lparr>pdf_path = ''generated_pdfs/abc.pdf'', pdf_format = ''A4'', pdf_print_background = False,
           pdf_scale = 6 / 10, pdf_margin_top = ''1cm'', pdf_margin_bottom = ''1cm'',
           pdf_margin_left = ''1cm'', pdf_margin_right = ''1cm''\<rparr>,
      Close] \<and>
   map_of (cookies (malformed_request [(''token'', ''s3cret'')])) ''token'' = Some ''s3cret'' \<and>
   generate_pdf default_config no_environ (malformed_request [(''token'', ''s3cret'')]) ''abc'' =
     (Inl JSONDecodeError, \<lparr>calls = [], written = []\<rparr>)"
  by (simp add: handler_defs example_requests)

text \<open>
  C9. A cookie \<^verbatim>\<open>token\<close> whose value is the empty string is treated as absent: the test
  \<^verbatim>\<open>if laravel_token:\<close> is a truthiness test, and no cookie is added to the browser
  context.
\<close>

theorem empty_token_not_forwarded:
  assumes "map_of (cookies request) ''token'' = Some []"
  shows "filter is_add_cookies (calls (snd (generate_pdf cfg environ request pdf_id))) = []"
  unfolding add_cookies_of_generate_pdf add_cookies_of_open_page using assms
  by (simp split: option.splits)

theorem empty_token_not_forwarded_witness:
  "map_of (cookies (post_request (JObject [(''url'', JStr ''https://example.com'')])
                      [(''token'', []), (''lang'', ''en'')])) ''token'' = Some [] \<and>
   filter is_add_cookies (calls (snd (generate_pdf default_config no_environ
       (post_request (JObject [(''url'', JStr ''https://example.com'')])
          [(''token'', []), (''lang'', ''en'')]) ''abc''))) = [] \<and>
   calls (snd (generate_pdf default_config no_environ
       (post_request (JObject [(''url'', JStr ''https://example.com'')])
          [(''token'', []), (''lang'', ''en'')]) ''abc'')) =
     [Launch, NewContext, NewPage, Goto (JStr ''https://example.com'') ''networkidle'',
      EmulateMedia ''print'',
      Pdf \<lparr>pdf_path = ''generated_pdfs/abc.pdf'', pdf_format = ''A4'', pdf_print_background = False,
           pdf_scale = 6 / 10, pdf_margin_top = ''1cm'', pdf_margin_bottom = ''1cm'',
           pdf_margin_left = ''1cm'', pdf_margin_right = ''1cm''\<rparr>,
      Close]"
proof -
  let ?req = "post_request (JObject [(''url'', JStr ''https://example.com'')])
                [(''token'', []), (''lang'', ''en'')]"
  have 1: "map_of (cookies ?req) ''token'' = Some []"
    by (simp add: example_requests)
  have 2: "calls (snd (generate_pdf default_config no_environ ?req ''abc'')) =
     [Launch, NewContext, NewPage, Goto (JStr ''https://example.com'') ''networkidle'',
      EmulateMedia ''print'',
      Pdf \<lparr>pdf_path = ''generated_pdfs/abc.pdf'', pdf_format = ''A4'', pdf_print_background = False,
           pdf_scale = 6 / 10, pdf_margin_top = ''1cm'', pdf_margin_bottom = ''1cm'',
           pdf_margin_left = ''1cm'', pdf_margin_right = ''1cm''\<rparr>,
      Close]"
    by (simp add: handler_defs example_requests)
  from empty_token_not_forwarded [OF 1, of default_config no_environ "''abc''"] 1 2
  show ?thesis by blast
qed

end
